theory Spec2Isabelle
  imports Main
begin

section \<open>The sharded key-value server (src/src/shardkv/server.go)\<close>

text \<open>
  Go's \<open>int\<close> and \<open>int64\<close> values of this program are configuration numbers, group
  identifiers, shard numbers, client identifiers, request serial numbers, terms and log
  indices, modelled as \<open>int\<close>. Most of them are only compared. Go's \<open>+\<close> wraps
  at 64 bits: a sum whose value the code stores or returns, the index that \<open>Start\<close>
  assigns, the match and next index the leader records, the conflict index of a reply, is
  written with \<open>go_add\<close>, which wraps. The sum \<open>Num + 1\<close> in the guard of
  \<open>applyConfigOperation\<close> and the difference of \<open>getOffsetIndex\<close> are on \<open>int\<close>:
  configuration numbers and snapshot indices are not negative, and the difference is taken
  under the test that makes it positive.
  Go maps are partial functions; a \<open>nil\<close> map reads like the empty map, and writing
  into it panics. A fixed-size array \<open>[NShards]T\<close> is a list; an index outside of it
  panics. The constant \<open>NShards\<close> and the function \<open>key2shard\<close> belong to files that
  are not part of the sources at hand: \<open>key2shard\<close> is a parameter of every function
  that calls it, and \<open>NShards\<close> is the common length of the arrays: the list of
  statuses of a replica and the list of owners of a configuration are taken to be
  equally long, as the type \<open>[NShards]\<close> makes them.
\<close>

datatype ShardStatus = AVAILABLE | EXPORTING | IMPORTING | NOTOWNED

datatype go_panic = NilMapWrite | IndexOutOfRange

record Config =
  Num :: int
  Shards :: "int list"
  Groups :: "int \<rightharpoonup> string list"

record Op =
  Method :: string
  Key :: string
  Value :: string
  ClientId :: int
  SerialNum :: int
  OpKvmap :: "string \<rightharpoonup> string"
  LatestRequests :: "int \<rightharpoonup> int"
  ShardNumber :: int
  BroadcastCfgVersion :: int

text \<open>
  The fields of \<open>ShardKV\<close> that the apply loop reads and writes. The locks, channels,
  network handles and \<open>SnapshotIndex\<close> (written by \<open>snapshot\<close> only) are left out.
\<close>

record ShardKV =
  gid :: int
  Kvmap :: "string \<rightharpoonup> string"
  latestRequests :: "int \<rightharpoonup> (int \<rightharpoonup> int)"
  ShardStatusList :: "ShardStatus list"
  LatestCfg :: Config

definition isRequestDuplicate :: "ShardKV \<Rightarrow> int \<Rightarrow> int \<Rightarrow> int \<Rightarrow> bool" where
  "isRequestDuplicate kv shard clientId requestId =
     (case latestRequests kv shard of
        Some shardRequests \<Rightarrow>
          (case shardRequests clientId of
             Some lastRequest \<Rightarrow> lastRequest = requestId
           | None \<Rightarrow> False)
      | None \<Rightarrow> False)"

text \<open>
  \<open>applyClientOp\<close>: the write into \<open>kv.latestRequests[shard]\<close> panics when that inner map
  is \<open>nil\<close>. \<open>Kvmap[k] += v\<close> reads the empty string for an absent key.
\<close>

definition applyClientOp :: "(string \<Rightarrow> int) \<Rightarrow> ShardKV \<Rightarrow> Op \<Rightarrow> go_panic + ShardKV" where
  "applyClientOp key2shard kv cmd =
     (if \<not> isRequestDuplicate kv (key2shard (Key cmd)) (ClientId cmd) (SerialNum cmd)
         \<and> Method cmd \<noteq> ''Get''
      then
        (let kvmap' =
           (if Method cmd = ''Put'' then (Kvmap kv)(Key cmd \<mapsto> Value cmd)
            else if Method cmd = ''Append'' then
              (Kvmap kv)(Key cmd \<mapsto>
                 (case Kvmap kv (Key cmd) of None \<Rightarrow> [] | Some old \<Rightarrow> old) @ Value cmd)
            else Kvmap kv)
         in case latestRequests kv (key2shard (Key cmd)) of
              None \<Rightarrow> Inl NilMapWrite
            | Some shardRequests \<Rightarrow>
                Inr (kv\<lparr>Kvmap := kvmap',
                        latestRequests := (latestRequests kv)
                          (key2shard (Key cmd) \<mapsto> shardRequests(ClientId cmd \<mapsto> SerialNum cmd))\<rparr>))
      else Inr kv)"


text \<open>
  The two migration cases of the \<open>switch\<close> in \<open>periodCheckApplyMsg\<close>. Both index
  \<open>kv.ShardStatusList\<close> with \<open>cmd.ShardNumber\<close>. The loops run over the keys of the
  command's own maps. In the \<open>ImportComplete\<close> case the write into
  \<open>kv.latestRequests[cmd.ShardNumber]\<close> panics on a \<open>nil\<close> inner map, if there is
  anything to write.
\<close>

definition caseExportComplete :: "(string \<Rightarrow> int) \<Rightarrow> ShardKV \<Rightarrow> Op \<Rightarrow> go_panic + ShardKV" where
  "caseExportComplete key2shard kv cmd =
     (if ShardNumber cmd < 0 \<or> int (length (ShardStatusList kv)) \<le> ShardNumber cmd
      then Inl IndexOutOfRange
      else if ShardStatusList kv ! nat (ShardNumber cmd) = EXPORTING then
        Inr (kv\<lparr>Kvmap := (\<lambda>k. if OpKvmap cmd k \<noteq> None \<and> ShardNumber cmd = key2shard k
                              then None else Kvmap kv k),
                ShardStatusList := (ShardStatusList kv)[nat (ShardNumber cmd) := NOTOWNED]\<rparr>)
      else Inr kv)"

definition caseImportComplete :: "(string \<Rightarrow> int) \<Rightarrow> ShardKV \<Rightarrow> Op \<Rightarrow> go_panic + ShardKV" where
  "caseImportComplete key2shard kv cmd =
     (let kvmap' = (\<lambda>k. if OpKvmap cmd k \<noteq> None \<and> ShardNumber cmd = key2shard k
                         then OpKvmap cmd k else Kvmap kv k)
      in if ShardNumber cmd < 0 \<or> int (length (ShardStatusList kv)) \<le> ShardNumber cmd
         then Inl IndexOutOfRange
         else if ShardStatusList kv ! nat (ShardNumber cmd) = IMPORTING then
           (case latestRequests kv (ShardNumber cmd) of
              None \<Rightarrow>
                if LatestRequests cmd = Map.empty
                then Inr (kv\<lparr>Kvmap := kvmap',
                            ShardStatusList := (ShardStatusList kv)[nat (ShardNumber cmd) := AVAILABLE]\<rparr>)
                else Inl NilMapWrite
            | Some shardRequests \<Rightarrow>
                Inr (kv\<lparr>Kvmap := kvmap',
                        latestRequests := (latestRequests kv)
                          (ShardNumber cmd \<mapsto> shardRequests ++ LatestRequests cmd),
                        ShardStatusList := (ShardStatusList kv)[nat (ShardNumber cmd) := AVAILABLE]\<rparr>))
         else
           Inr (kv\<lparr>Kvmap := kvmap',
                   ShardStatusList := (ShardStatusList kv)[nat (ShardNumber cmd) := AVAILABLE]\<rparr>))"

subsection \<open>Migration messages\<close>

record MigrateShardArgs =
  ConfigVersion :: int
  ArgShardNumber :: int
  ArgKvmap :: "string \<rightharpoonup> string"
  Duplicate :: "int \<rightharpoonup> int"

record MigrateShardReply =
  WrongLeader :: bool
  Err :: string

text \<open>
  Modelled from the spec: the error tag \<open>OK\<close> of the shard server's message
  declarations, which are not among the sources. The spec lists the tags
  \<open>OK\<close>, \<open>ErrNoKey\<close>, \<open>ErrWrongGroup\<close> and the empty string as different values; the
  declarations of the single-group server (src/src/kvraft/common.go) give \<open>OK = "OK"\<close>.
\<close>

definition OK :: string where
  "OK = ''OK''"

text \<open>
  A call of \<open>sendMigrateShard\<close> made by the apply loop: the request it builds, and the
  group and servers it is sent to. The retry loop over the network is not modelled.
\<close>

record MigrateSend =
  sendReq :: MigrateShardArgs
  destGid :: int
  destServers :: "string list"

text \<open>
  The request of \<open>sendMigrateShard\<close> (lines 815 to 828): two maps made empty and then
  filled by one loop each.
\<close>

definition sendMigrateShard_req :: "ShardKV \<Rightarrow> int \<Rightarrow> int \<Rightarrow> MigrateShardArgs" where
  "sendMigrateShard_req kv shard cfgNum =
     \<lparr>ConfigVersion = cfgNum,
      ArgShardNumber = shard,
      ArgKvmap = Map.empty ++ Kvmap kv,
      Duplicate = Map.empty ++ (case latestRequests kv shard of None \<Rightarrow> Map.empty | Some m \<Rightarrow> m)\<rparr>"

text \<open>The test \<open>sendMigrateShard\<close> applies to a reply before it stops retrying (line 840).\<close>

definition migrateAccepted :: "bool \<Rightarrow> MigrateShardReply \<Rightarrow> bool" where
  "migrateAccepted ok reply = (ok \<and> WrongLeader reply = False \<and> Err reply = OK)"

text \<open>The \<open>Op\<close> that \<open>broadcastMigrationStatus\<close> hands to \<open>Start\<close>; the other fields are zero.\<close>

definition broadcastMigrationStatus ::
  "string \<Rightarrow> int \<Rightarrow> int \<Rightarrow> (string \<rightharpoonup> string) \<Rightarrow> (int \<rightharpoonup> int) \<Rightarrow> Op" where
  "broadcastMigrationStatus status shard cfgNum kvmap duplicates =
     \<lparr>Method = status, Key = [], Value = [], ClientId = 0, SerialNum = 0,
      OpKvmap = kvmap, LatestRequests = duplicates,
      ShardNumber = shard, BroadcastCfgVersion = cfgNum\<rparr>"

text \<open>
  The command \<open>sendMigrateShard\<close> submits once a reply has passed the test (line 845):
  it carries the maps of the request.
\<close>

definition sendMigrateShard_done :: "MigrateShardArgs \<Rightarrow> Op" where
  "sendMigrateShard_done req =
     broadcastMigrationStatus ''ExportComplete'' (ArgShardNumber req) (ConfigVersion req)
       (ArgKvmap req) (Duplicate req)"

text \<open>
  The RPC handler \<open>MigrateShard\<close>. \<open>isLeader\<close> is the answer of \<open>kv.rf.IsLeader()\<close>, and
  \<open>reply\<close> the struct the handler writes into. The result is the reply and the command
  submitted to Raft, if any.
\<close>

definition MigrateShard ::
  "(string \<Rightarrow> int) \<Rightarrow> bool \<Rightarrow> ShardKV \<Rightarrow> MigrateShardArgs \<Rightarrow> MigrateShardReply
     \<Rightarrow> go_panic + (MigrateShardReply \<times> Op option)" where
  "MigrateShard key2shard isLeader kv args reply =
     (if \<not> isLeader then Inr (reply\<lparr>WrongLeader := True\<rparr>, None)
      else if ArgShardNumber args < 0 \<or> int (length (ShardStatusList kv)) \<le> ArgShardNumber args
      then Inl IndexOutOfRange
      else if ShardStatusList kv ! nat (ArgShardNumber args) = AVAILABLE then Inr (reply, None)
      else
        (let data = (\<lambda>k. if ArgKvmap args k \<noteq> None \<and> ArgShardNumber args = key2shard k
                          then ArgKvmap args k else None);
             duplicateReqs = Map.empty ++ Duplicate args
         in Inr (reply\<lparr>Err := OK\<rparr>,
                 Some (broadcastMigrationStatus ''ImportComplete'' (ArgShardNumber args)
                         (ConfigVersion args) data duplicateReqs))))"

subsection \<open>Applying a configuration\<close>

text \<open>
  \<open>query\<close> stands for \<open>kv.mck.Query\<close>, the shard master's answer to a configuration
  number. \<open>isLeader i\<close> is what \<open>kv.rf.IsLeader()\<close> answers when the loop is at shard
  \<open>i\<close>. The search for an earlier owner (lines 583 to 588) asks the shard master for
  older and older configurations, and ends only if the answers allow it: it is a
  partial function, \<open>None\<close> when it runs forever.
\<close>

definition shardTransferInProgress :: "ShardKV \<Rightarrow> bool" where
  "shardTransferInProgress kv =
     list_ex (\<lambda>status. status = EXPORTING \<or> status = IMPORTING) (ShardStatusList kv)"

partial_function (option) lastConfigLoop ::
  "(int \<Rightarrow> Config) \<Rightarrow> int \<Rightarrow> nat \<Rightarrow> Config \<Rightarrow> Config option" where
  "lastConfigLoop query g shardIndex lastConfig =
     (if Num lastConfig > 1 \<and> Shards lastConfig ! shardIndex = g
      then lastConfigLoop query g shardIndex (query (Num lastConfig - 1))
      else Some lastConfig)"

definition setStatus :: "ShardKV \<Rightarrow> nat \<Rightarrow> ShardStatus \<Rightarrow> ShardKV" where
  "setStatus kv shardIndex status =
     kv\<lparr>ShardStatusList := (ShardStatusList kv)[shardIndex := status]\<rparr>"

definition updateShard ::
  "(int \<Rightarrow> Config) \<Rightarrow> (nat \<Rightarrow> bool) \<Rightarrow> Config \<Rightarrow> int list \<Rightarrow> nat
     \<Rightarrow> ShardKV \<times> MigrateSend list \<Rightarrow> (ShardKV \<times> MigrateSend list) option" where
  "updateShard query isLeader cfg cachedPrevShardsToGroupMap shardIndex acc =
     (let kv = fst acc; sends = snd acc;
          newGid = Shards cfg ! shardIndex;
          cachedGid = cachedPrevShardsToGroupMap ! shardIndex;
          shardStatus = ShardStatusList kv ! shardIndex
      in if cachedGid = gid kv \<and> newGid \<noteq> gid kv then
           (if shardStatus = AVAILABLE then
              (let kv1 = setStatus kv shardIndex EXPORTING
               in Some (kv1,
                    if isLeader shardIndex
                    then sends @ [\<lparr>sendReq = sendMigrateShard_req kv1 (int shardIndex) (Num cfg),
                                   destGid = newGid,
                                   destServers = (case Groups cfg newGid of
                                                    None \<Rightarrow> [] | Some servers \<Rightarrow> servers)\<rparr>]
                    else sends))
            else Some (setStatus kv shardIndex NOTOWNED, sends))
         else if cachedGid \<noteq> gid kv \<and> newGid = gid kv then
           (if shardStatus = NOTOWNED then
              (let kv1 = setStatus kv shardIndex (if cachedGid \<noteq> 0 then IMPORTING else AVAILABLE)
               in case lastConfigLoop query (gid kv) shardIndex cfg of
                    None \<Rightarrow> None
                  | Some lastConfig \<Rightarrow>
                      if Num lastConfig = 1 \<and> Shards lastConfig ! shardIndex = gid kv
                      then Some (setStatus kv1 shardIndex AVAILABLE, sends)
                      else Some (kv1, sends))
            else if newGid \<noteq> gid kv \<and> shardStatus = IMPORTING then
              Some (setStatus kv shardIndex NOTOWNED, sends)
            else Some (kv, sends))
         else Some (kv, sends))"

fun updateShards ::
  "(int \<Rightarrow> Config) \<Rightarrow> (nat \<Rightarrow> bool) \<Rightarrow> Config \<Rightarrow> int list \<Rightarrow> nat list
     \<Rightarrow> ShardKV \<times> MigrateSend list \<Rightarrow> (ShardKV \<times> MigrateSend list) option" where
  "updateShards query isLeader cfg cachedPrev [] acc = Some acc"
| "updateShards query isLeader cfg cachedPrev (shardIndex # rest) acc =
     (case updateShard query isLeader cfg cachedPrev shardIndex acc of
        None \<Rightarrow> None
      | Some acc' \<Rightarrow> updateShards query isLeader cfg cachedPrev rest acc')"

fun firstConfig :: "Config \<Rightarrow> nat list \<Rightarrow> ShardKV \<Rightarrow> ShardKV" where
  "firstConfig cfg [] kv = kv"
| "firstConfig cfg (shardIndex # rest) kv =
     firstConfig cfg rest
       (setStatus kv shardIndex (if Shards cfg ! shardIndex = gid kv then AVAILABLE else NOTOWNED))"

definition applyConfigOperation ::
  "(int \<Rightarrow> Config) \<Rightarrow> (nat \<Rightarrow> bool) \<Rightarrow> ShardKV \<Rightarrow> int
     \<Rightarrow> (ShardKV \<times> MigrateSend list) option" where
  "applyConfigOperation query isLeader kv num =
     (if Num (LatestCfg kv) + 1 \<noteq> num \<or> shardTransferInProgress kv then Some (kv, [])
      else
        (let cfg = query num
         in if Num cfg > 1 then
              (case updateShards query isLeader cfg (Shards (LatestCfg kv))
                      [0..<length (Shards cfg)] (kv, []) of
                 None \<Rightarrow> None
               | Some (kv', sends) \<Rightarrow> Some (kv'\<lparr>LatestCfg := cfg\<rparr>, sends))
            else if Num cfg = 1 then
              Some ((firstConfig cfg [0..<length (Shards cfg)] kv)\<lparr>LatestCfg := cfg\<rparr>, [])
            else Some (kv\<lparr>LatestCfg := cfg\<rparr>, [])))"

subsection \<open>The apply loop\<close>

text \<open>
  The \<open>switch\<close> on \<open>cmd.Method\<close> in \<open>periodCheckApplyMsg\<close>, for a message with
  \<open>CommandValid\<close>. The result is \<open>None\<close> when the command does not return, a panic, or
  the new state and the migrations sent meanwhile. What the loop does after the switch
  (\<open>snapshotIfNeeded\<close>, waking the waiting handler) writes none of the fields of
  \<open>ShardKV\<close> modelled here.
\<close>

definition applyCommand ::
  "(string \<Rightarrow> int) \<Rightarrow> (int \<Rightarrow> Config) \<Rightarrow> (nat \<Rightarrow> bool) \<Rightarrow> ShardKV \<Rightarrow> Op
     \<Rightarrow> (go_panic + ShardKV \<times> MigrateSend list) option" where
  "applyCommand key2shard query isLeader kv cmd =
     (if Method cmd = ''Put'' \<or> Method cmd = ''Append'' then
        Some (map_sum id (\<lambda>kv'. (kv', [])) (applyClientOp key2shard kv cmd))
      else if Method cmd = ''ExportComplete'' then
        Some (map_sum id (\<lambda>kv'. (kv', [])) (caseExportComplete key2shard kv cmd))
      else if Method cmd = ''ImportComplete'' then
        Some (map_sum id (\<lambda>kv'. (kv', [])) (caseImportComplete key2shard kv cmd))
      else if Method cmd = ''ApplyConfig'' then
        map_option Inr (applyConfigOperation query isLeader kv (BroadcastCfgVersion cmd))
      else Some (Inr (kv, [])))"

text \<open>
  The loop itself, over the committed commands in log order; it stops at a panic. The
  messages that make it load a snapshot are not among them.
\<close>

fun periodCheckApplyMsg ::
  "(string \<Rightarrow> int) \<Rightarrow> (int \<Rightarrow> Config) \<Rightarrow> (nat \<Rightarrow> bool) \<Rightarrow> ShardKV \<Rightarrow> Op list
     \<Rightarrow> (go_panic + ShardKV) option" where
  "periodCheckApplyMsg key2shard query isLeader kv [] = Some (Inr kv)"
| "periodCheckApplyMsg key2shard query isLeader kv (cmd # cmds) =
     (case applyCommand key2shard query isLeader kv cmd of
        None \<Rightarrow> None
      | Some (Inl e) \<Rightarrow> Some (Inl e)
      | Some (Inr (kv', sends)) \<Rightarrow> periodCheckApplyMsg key2shard query isLeader kv' cmds)"

text \<open>
  The state \<open>StartServer\<close> builds when there is no snapshot to load: an empty map, an
  empty duplicate table for each shard, and the zero values of Go for the rest, so
  every shard starts as \<open>AVAILABLE\<close> and the configuration has number 0.
\<close>

definition StartServer :: "nat \<Rightarrow> int \<Rightarrow> ShardKV" where
  "StartServer NShards g =
     \<lparr>gid = g,
      Kvmap = Map.empty,
      latestRequests = (\<lambda>i. if 0 \<le> i \<and> i < int NShards then Some Map.empty else None),
      ShardStatusList = replicate NShards AVAILABLE,
      LatestCfg = \<lparr>Num = 0, Shards = replicate NShards 0, Groups = Map.empty\<rparr>\<rparr>"


section \<open>The Raft peer (src/src/raft/raft.go)\<close>

text \<open>
  A peer's state. The command of a log entry is of any type \<open>'c\<close>. \<open>npeers\<close> is
  \<open>len(rf.peers)\<close>; \<open>currentTerm\<close> is the field \<open>term\<close>; \<open>lastHeartBeat\<close> is a time,
  and every handler takes the reading of the clock, \<open>now\<close>, as an argument.
  \<open>notifyApplyCh\<close> counts the signals sent to the apply process. The persister holds
  what \<open>persist\<close> and \<open>SaveStateAndSnapshot\<close> last wrote: the five encoded fields, and
  the snapshot.
\<close>

datatype ServerState = Follower | Candidate | Leader

text \<open>Go's \<open>+\<close> on \<open>int\<close>, 64 bits wide and signed: the sum, wrapped into the range.\<close>

definition go_add :: "int \<Rightarrow> int \<Rightarrow> int" where
  "go_add a b = (a + b + 2 ^ 63) mod 2 ^ 64 - 2 ^ 63"

record 'c Log =
  Cmd :: 'c
  Term :: int
  Index :: int

record 'c PersistState =
  pTerm :: int
  pVotedFor :: int
  pLog :: "'c Log list"
  pLastSnapshotIndex :: int
  pLastSnapshotTerm :: int

record 'c Raft =
  npeers :: nat
  me :: int
  leaderID :: int
  currentTerm :: int
  votedFor :: int
  lastHeartBeat :: int
  state :: ServerState
  commitIndex :: int
  lastApplied :: int
  log :: "'c Log list"
  nextIndex :: "int list"
  matchIndex :: "int list"
  isDecommissioned :: bool
  lastSnapshotIndex :: int
  lastSnapshotTerm :: int
  notifyApplyCh :: nat
  raftstate :: "'c PersistState"
  snapshot :: "nat list"

definition isLeader :: "'c Raft \<Rightarrow> bool" where
  "isLeader rf = (state rf = Leader)"

definition getPersistState :: "'c Raft \<Rightarrow> 'c PersistState" where
  "getPersistState rf =
     \<lparr>pTerm = currentTerm rf, pVotedFor = votedFor rf, pLog = log rf,
      pLastSnapshotIndex = lastSnapshotIndex rf, pLastSnapshotTerm = lastSnapshotTerm rf\<rparr>"

definition persist :: "'c Raft \<Rightarrow> 'c Raft" where
  "persist rf = rf\<lparr>raftstate := getPersistState rf\<rparr>"

definition turnToFollow :: "'c Raft \<Rightarrow> 'c Raft" where
  "turnToFollow rf = persist (rf\<lparr>state := Follower, votedFor := - 1\<rparr>)"

definition getLastLogEntry :: "'c Raft \<Rightarrow> int \<times> int" where
  "getLastLogEntry rf =
     (if length (log rf) > 0 then (Index (last (log rf)), Term (last (log rf)))
      else (lastSnapshotIndex rf, lastSnapshotTerm rf))"

definition getLastLogIndex :: "'c Raft \<Rightarrow> int" where
  "getLastLogIndex rf =
     (if length (log rf) = 0 then lastSnapshotIndex rf else Index (last (log rf)))"

subsection \<open>RequestVote\<close>

record RequestVoteArgs =
  rvTerm :: int
  CandidateId :: int
  LastLogIndex :: int
  LastLogTerm :: int

record RequestVoteReply =
  rvrTerm :: int
  VoteGranted :: bool

definition checkIfLogUpdateToDate :: "'c Raft \<Rightarrow> int \<Rightarrow> int \<Rightarrow> bool" where
  "checkIfLogUpdateToDate rf lastLogIndex lastLogTerm =
     (let lastI = fst (getLastLogEntry rf); lastT = snd (getLastLogEntry rf)
      in if lastT = lastLogTerm then lastI \<le> lastLogIndex else lastT < lastLogTerm)"

text \<open>
  The handler writes into the reply it is given and leaves \<open>VoteGranted\<close> as it finds it
  when neither branch of the second \<open>if\<close> is taken; the caller passes the zero value.
\<close>

definition zeroRequestVoteReply :: RequestVoteReply where
  "zeroRequestVoteReply = \<lparr>rvrTerm = 0, VoteGranted = False\<rparr>"

definition RequestVote ::
  "'c Raft \<Rightarrow> RequestVoteArgs \<Rightarrow> RequestVoteReply \<Rightarrow> int \<Rightarrow> 'c Raft \<times> RequestVoteReply" where
  "RequestVote rf args reply now =
     (let reply1 = reply\<lparr>rvrTerm := currentTerm rf\<rparr>;
          updateToDate = checkIfLogUpdateToDate rf (LastLogIndex args) (LastLogTerm args);
          rf1 = (if rvTerm args > currentTerm rf
                 then (turnToFollow rf)\<lparr>currentTerm := rvTerm args\<rparr> else rf)
      in if rvTerm args < currentTerm rf1 then
           (persist rf1, reply1\<lparr>VoteGranted := False\<rparr>)
         else if (votedFor rf1 = - 1 \<or> CandidateId args = votedFor rf1) \<and> updateToDate then
           (persist (rf1\<lparr>votedFor := CandidateId args, lastHeartBeat := now\<rparr>),
            reply1\<lparr>VoteGranted := True\<rparr>)
         else (persist rf1, reply1))"

subsection \<open>AppendEntries\<close>

record 'c AppendEntriesArgs =
  aeTerm :: int
  LeaderId :: int
  PreLogIndex :: int
  PreLogTerm :: int
  Entries :: "'c Log list"
  LeaderCommit :: int

record AppendEntriesReply =
  aerTerm :: int
  Success :: bool
  ConflictingLogTerm :: int
  ConflictingLogIndex :: int






subsection \<open>Start and the commit index\<close>

definition Start :: "'c Raft \<Rightarrow> 'c \<Rightarrow> 'c Raft \<times> int \<times> int \<times> bool" where
  "Start rf command =
     (if isLeader rf = False then (rf, - 1, - 1, False)
      else
        (let nextIndex = (if length (log rf) > 0 then go_add (Index (last (log rf))) 1
                          else max 1 (go_add (lastSnapshotIndex rf) 1));
             entry = \<lparr>Cmd = command, Term = currentTerm rf, Index = nextIndex\<rparr>;
             rf1 = persist (rf\<lparr>log := log rf @ [entry]\<rparr>)
         in (rf1, Index entry, currentTerm rf1, True)))"

text \<open>
  The inner loop of \<open>updateCommitIndex\<close> over \<open>rf.matchIndex\<close>: how many peers other
  than this one have a match index of at least \<open>idx\<close>.
\<close>

definition countMatches :: "'c Raft \<Rightarrow> int \<Rightarrow> nat" where
  "countMatches rf idx =
     length (filter (\<lambda>(serverIndex, j). int serverIndex \<noteq> me rf \<and> j \<ge> idx)
               (enumerate 0 (matchIndex rf)))"

text \<open>The outer loop, from \<open>i\<close> down to 1; \<open>count\<close> starts at 1 for every entry.\<close>

fun updateCommitIndexFrom :: "'c Raft \<Rightarrow> nat \<Rightarrow> 'c Raft" where
  "updateCommitIndexFrom rf 0 = rf"
| "updateCommitIndexFrom rf (Suc i) =
     (let v = log rf ! i;
          count = (if Term v = currentTerm rf \<and> Index v > commitIndex rf
                   then 1 + countMatches rf (Index v) else 1)
      in if count > npeers rf div 2
         then rf\<lparr>commitIndex := Index v, notifyApplyCh := Suc (notifyApplyCh rf)\<rparr>
         else updateCommitIndexFrom rf i)"

definition updateCommitIndex :: "'c Raft \<Rightarrow> 'c Raft" where
  "updateCommitIndex rf = updateCommitIndexFrom rf (length (log rf))"

text \<open>
  What \<open>sendAppendEntries\<close> does with the reply of peer \<open>s\<close> once the call has returned
  with \<open>ok\<close> (lines 695 to 725). The Boolean tells whether the peer's loop is signalled to send again.
\<close>

definition sendAppendEntries_reply ::
  "'c Raft \<Rightarrow> int \<Rightarrow> 'c AppendEntriesArgs \<Rightarrow> AppendEntriesReply \<Rightarrow> go_panic + 'c Raft \<times> bool" where
  "sendAppendEntries_reply rf s args reply =
     (if state rf \<noteq> Leader \<or> isDecommissioned rf \<or> aeTerm args \<noteq> currentTerm rf
      then Inr (rf, False)
      else if aerTerm reply > currentTerm rf
      then Inr (persist (turnToFollow (rf\<lparr>currentTerm := aerTerm reply\<rparr>)), False)
      else if Success reply then
        (if length (Entries args) > 0 then
           (if s < 0 \<or> int (length (matchIndex rf)) \<le> s \<or> int (length (nextIndex rf)) \<le> s
            then Inl IndexOutOfRange
            else
              (let m = go_add (PreLogIndex args) (int (length (Entries args)))
               in Inr (updateCommitIndex
                         (rf\<lparr>matchIndex := (matchIndex rf)[nat s := m],
                             nextIndex := (nextIndex rf)[nat s := go_add m 1]\<rparr>), False)))
         else Inr (rf, False))
      else
        (if s < 0 \<or> int (length (nextIndex rf)) \<le> s then Inl IndexOutOfRange
         else Inr (rf\<lparr>nextIndex := (nextIndex rf)
                         [nat s := max 1 (min (ConflictingLogIndex reply) (getLastLogIndex rf))]\<rparr>,
                   True)))"

subsection \<open>InstallSnapshot\<close>






section \<open>Concrete inputs\<close>

text \<open>
  Modelled from the spec: \<open>key2shard\<close> and \<open>NShards\<close>, which are not among the
  sources. The spec says that a key maps to a shard in \<open>[0, NSHARDS)\<close> by a stable hash,
  and its first scenario has 10 shards. For the closed examples below there are ten
  shards, and \<open>key2shard10\<close> sends a key to its first byte modulo ten, so the key \<open>a\<close>
  (byte 97) is in shard 7 and \<open>b\<close> in shard 8. The general theorems hold for every
  \<open>key2shard\<close> and any number of shards.
\<close>

definition key2shard10 :: "string \<Rightarrow> int" where
  "key2shard10 k = (case k of [] \<Rightarrow> 0 | c # _ \<Rightarrow> int (of_char c) mod 10)"

text \<open>What an observer reads off the state the apply loop ends in.\<close>

definition lookupAfter :: "(go_panic + ShardKV) option \<Rightarrow> string \<Rightarrow> string option option" where
  "lookupAfter r k = (case r of Some (Inr kv) \<Rightarrow> Some (Kvmap kv k) | _ \<Rightarrow> None)"

definition statusAfter :: "(go_panic + ShardKV) option \<Rightarrow> nat \<Rightarrow> ShardStatus option" where
  "statusAfter r i = (case r of Some (Inr kv) \<Rightarrow> Some (ShardStatusList kv ! i) | _ \<Rightarrow> None)"

definition recordedAfter :: "(go_panic + ShardKV) option \<Rightarrow> int \<Rightarrow> int \<Rightarrow> int option option" where
  "recordedAfter r shard client =
     (case r of
        Some (Inr kv) \<Rightarrow>
          Some (case latestRequests kv shard of None \<Rightarrow> None | Some m \<Rightarrow> m client)
      | _ \<Rightarrow> None)"

text \<open>The commands the handlers and the configuration poller submit.\<close>

definition putOp :: "string \<Rightarrow> string \<Rightarrow> int \<Rightarrow> int \<Rightarrow> Op" where
  "putOp k v c s =
     \<lparr>Method = ''Put'', Key = k, Value = v, ClientId = c, SerialNum = s,
      OpKvmap = Map.empty, LatestRequests = Map.empty,
      ShardNumber = 0, BroadcastCfgVersion = 0\<rparr>"

definition applyConfigOp :: "int \<Rightarrow> Op" where
  "applyConfigOp n =
     \<lparr>Method = ''ApplyConfig'', Key = [], Value = [], ClientId = 0, SerialNum = 0,
      OpKvmap = Map.empty, LatestRequests = Map.empty,
      ShardNumber = 0, BroadcastCfgVersion = n\<rparr>"

definition notLeader :: "nat \<Rightarrow> bool" where
  "notLeader shardIndex = False"

text \<open>
  Two histories of the shard master, seen from group 1. In the first, group 1 owns
  every shard and then loses shard 7 to group 2. In the second, group 2 owns every
  shard, group 1 gains shard 7, and loses it again to group 2.
\<close>

definition exportConfigs :: "int \<Rightarrow> Config" where
  "exportConfigs n =
     (if n = 1 then \<lparr>Num = 1, Shards = replicate 10 1, Groups = [1 \<mapsto> [''g1'']]\<rparr>
      else \<lparr>Num = 2, Shards = (replicate 10 1)[7 := 2],
             Groups = [1 \<mapsto> [''g1''], 2 \<mapsto> [''g2'']]\<rparr>)"

definition importConfigs :: "int \<Rightarrow> Config" where
  "importConfigs n =
     (if n = 1 then \<lparr>Num = 1, Shards = replicate 10 2, Groups = [2 \<mapsto> [''g2'']]\<rparr>
      else if n = 2 then
        \<lparr>Num = 2, Shards = (replicate 10 2)[7 := 1],
         Groups = [1 \<mapsto> [''g1''], 2 \<mapsto> [''g2'']]\<rparr>
      else
        \<lparr>Num = 3, Shards = replicate 10 2,
         Groups = [1 \<mapsto> [''g1''], 2 \<mapsto> [''g2'']]\<rparr>)"

text \<open>
  States of a replica of group 1: shard 7 being exported under configuration 2 of the
  first history; shard 7 being imported under configuration 2 of the second; shard 7
  imported, with the key \<open>a\<close>; and a replica that holds keys of two shards.
\<close>

definition exportingShard :: ShardKV where
  "exportingShard =
     \<lparr>gid = 1,
      Kvmap = Map.empty,
      latestRequests = latestRequests (StartServer 10 1),
      ShardStatusList = (replicate 10 AVAILABLE)[7 := EXPORTING],
      LatestCfg = exportConfigs 2\<rparr>"

definition importingShard :: ShardKV where
  "importingShard =
     \<lparr>gid = 1,
      Kvmap = Map.empty,
      latestRequests = latestRequests (StartServer 10 1),
      ShardStatusList = (replicate 10 NOTOWNED)[7 := IMPORTING],
      LatestCfg = importConfigs 2\<rparr>"

definition importedShard :: ShardKV where
  "importedShard =
     \<lparr>gid = 1,
      Kvmap = [''a'' \<mapsto> ''1''],
      latestRequests = (latestRequests (StartServer 10 1))(7 \<mapsto> [5 \<mapsto> 1]),
      ShardStatusList = (replicate 10 NOTOWNED)[7 := AVAILABLE],
      LatestCfg = importConfigs 2\<rparr>"

definition twoKeys :: ShardKV where
  "twoKeys = (StartServer 10 1)\<lparr>Kvmap := [''a'' \<mapsto> ''1'', ''b'' \<mapsto> ''2'']\<rparr>"

definition migrateArgs :: MigrateShardArgs where
  "migrateArgs =
     \<lparr>ConfigVersion = 2, ArgShardNumber = 7, ArgKvmap = [''a'' \<mapsto> ''1''],
      Duplicate = [5 \<mapsto> 1]\<rparr>"

definition zeroMigrateShardReply :: MigrateShardReply where
  "zeroMigrateShardReply = \<lparr>WrongLeader = False, Err = []\<rparr>"

text \<open>
  Raft peers: a follower of a cluster of three; the same peer with an empty log after a
  snapshot up to index 4 of term 2; a leader whose last entry has the largest index of
  the type; a killed peer; and a leader of three peers.
\<close>

definition peerExample :: "nat Raft" where
  "peerExample =
     \<lparr>npeers = 3, me = 1, leaderID = 2, currentTerm = 4, votedFor = 2, lastHeartBeat = 0,
      state = Follower, commitIndex = 1, lastApplied = 1,
      log = [\<lparr>Cmd = 10, Term = 1, Index = 1\<rparr>, \<lparr>Cmd = 11, Term = 3, Index = 2\<rparr>],
      nextIndex = [], matchIndex = [], isDecommissioned = False,
      lastSnapshotIndex = 0, lastSnapshotTerm = 0, notifyApplyCh = 0,
      raftstate = \<lparr>pTerm = 4, pVotedFor = 2,
                   pLog = [\<lparr>Cmd = 10, Term = 1, Index = 1\<rparr>, \<lparr>Cmd = 11, Term = 3, Index = 2\<rparr>],
                   pLastSnapshotIndex = 0, pLastSnapshotTerm = 0\<rparr>,
      snapshot = []\<rparr>"

definition snapshotPeer :: "nat Raft" where
  "snapshotPeer = peerExample\<lparr>log := [], lastSnapshotIndex := 4, lastSnapshotTerm := 2\<rparr>"

definition fullLeader :: "nat Raft" where
  "fullLeader =
     peerExample\<lparr>state := Leader,
                 log := [\<lparr>Cmd = 10, Term = 4, Index = 2 ^ 63 - 1\<rparr>]\<rparr>"


definition leaderExample :: "nat Raft" where
  "leaderExample =
     \<lparr>npeers = 3, me = 0, leaderID = 0, currentTerm = 3, votedFor = 0, lastHeartBeat = 0,
      state = Leader, commitIndex = 1, lastApplied = 1,
      log = [\<lparr>Cmd = 10, Term = 1, Index = 1\<rparr>, \<lparr>Cmd = 11, Term = 3, Index = 2\<rparr>,
             \<lparr>Cmd = 12, Term = 3, Index = 3\<rparr>],
      nextIndex = [0, 2, 2], matchIndex = [0, 0, 0], isDecommissioned = False,
      lastSnapshotIndex = 0, lastSnapshotTerm = 0, notifyApplyCh = 0,
      raftstate = \<lparr>pTerm = 3, pVotedFor = 0,
                   pLog = [\<lparr>Cmd = 10, Term = 1, Index = 1\<rparr>, \<lparr>Cmd = 11, Term = 3, Index = 2\<rparr>,
                           \<lparr>Cmd = 12, Term = 3, Index = 3\<rparr>],
                   pLastSnapshotIndex = 0, pLastSnapshotTerm = 0\<rparr>,
      snapshot = []\<rparr>"

definition entriesSent :: "nat AppendEntriesArgs" where
  "entriesSent =
     \<lparr>aeTerm = 3, LeaderId = 0, PreLogIndex = 1, PreLogTerm = 1,
      Entries = [\<lparr>Cmd = 11, Term = 3, Index = 2\<rparr>, \<lparr>Cmd = 12, Term = 3, Index = 3\<rparr>],
      LeaderCommit = 1\<rparr>"

definition successReply :: AppendEntriesReply where
  "successReply =
     \<lparr>aerTerm = 3, Success = True, ConflictingLogTerm = 0, ConflictingLogIndex = 0\<rparr>"




definition voteRequest :: "int \<Rightarrow> int \<Rightarrow> int \<Rightarrow> int \<Rightarrow> RequestVoteArgs" where
  "voteRequest t c i lt = \<lparr>rvTerm = t, CandidateId = c, LastLogIndex = i, LastLogTerm = lt\<rparr>"

section \<open>Predicates of the statements\<close>


text \<open>
  The test of \<open>updateCommitIndex\<close> on an entry, when the cluster has two peers or more:
  the entry is of the current term, lies beyond the commit index, and is matched by
  more than half of the peers, this one counted.
\<close>

definition qualifies :: "'c Raft \<Rightarrow> 'c Log \<Rightarrow> bool" where
  "qualifies rf v =
     (Term v = currentTerm rf \<and> Index v > commitIndex rf
        \<and> 1 + countMatches rf (Index v) > npeers rf div 2)"


section \<open>Properties of the shard server\<close>

subsection \<open>Evaluation of the examples\<close>

lemma key2shard10_a: "key2shard10 ''a'' = 7"
  by (simp add: key2shard10_def)

lemma key2shard10_b: "key2shard10 ''b'' = 8"
  by (simp add: key2shard10_def)

lemma upt_ten: "[0..<10] = [0, 1, 2, 3, 4, 5, 6, 7, 8, 9]"
  by (simp add: upt_rec)

lemma replicate_ten: "replicate 10 x = [x, x, x, x, x, x, x, x, x, x]"
  by (simp add: numeral_eq_Suc)

lemmas run_defs =
  applyCommand_def applyClientOp_def isRequestDuplicate_def
  caseExportComplete_def caseImportComplete_def applyConfigOperation_def
  updateShard_def setStatus_def shardTransferInProgress_def StartServer_def
  putOp_def applyConfigOp_def notLeader_def broadcastMigrationStatus_def
  lookupAfter_def statusAfter_def recordedAfter_def Let_def upt_ten replicate_ten
  lastConfigLoop.simps key2shard10_a key2shard10_b

subsection \<open>What a configuration change leaves alone\<close>

lemma setStatus_fields [simp]:
  "gid (setStatus kv i st) = gid kv"
  "Kvmap (setStatus kv i st) = Kvmap kv"
  "latestRequests (setStatus kv i st) = latestRequests kv"
  "LatestCfg (setStatus kv i st) = LatestCfg kv"
  by (simp_all add: setStatus_def)





subsection \<open>Replaying a write\<close>









subsection \<open>Keys and the status of their shard\<close>

lemma exportingShard_reached:
  "periodCheckApplyMsg key2shard10 exportConfigs notLeader (StartServer 10 1)
     [applyConfigOp 1, applyConfigOp 2]
   = Some (Inr exportingShard)"
  by (simp add: run_defs exportConfigs_def exportingShard_def)

text \<open>
  On the leader, the step to \<open>exportingShard\<close> ships the request that is built in
  that state, to the servers of group 2.
\<close>

lemma leader_ships_request:
  "applyCommand key2shard10 exportConfigs (\<lambda>shardIndex. True)
     ((StartServer 10 1)\<lparr>LatestCfg := exportConfigs 1\<rparr>) (applyConfigOp 2)
   = Some (Inr (exportingShard,
        [\<lparr>sendReq = sendMigrateShard_req exportingShard 7 2, destGid = 2,
          destServers = [''g2'']\<rparr>]))"
  by (simp add: run_defs exportConfigs_def exportingShard_def sendMigrateShard_req_def)

text \<open>
  Claim C2. At every apply boundary a key is in the map only while the status of its
  shard is \<open>AVAILABLE\<close> or \<open>EXPORTING\<close>, and \<open>ExportComplete\<close> for a shard removes
  every local key of that shard. The code is run on a replica of group 1 that starts
  empty. It applies configuration 1 (every shard to group 1) and configuration 2
  (shard 7 to group 2), which makes shard 7 \<open>EXPORTING\<close> and leaves the replica in the
  state \<open>exportingShard\<close>; a \<open>Put\<close> of the key \<open>a\<close> of shard 7, which was in the log
  already; and the \<open>ExportComplete\<close> that the sender submits for the request it built
  in the state \<open>exportingShard\<close>, whose map is empty. The case deletes the keys of the
  command's map only: the key \<open>a\<close> is still in the local map, and the status of shard
  7 is \<open>NOTOWNED\<close>.
\<close>

theorem export_complete_leaves_key:
  "key2shard10 ''a'' = 7
   \<and> statusAfter (periodCheckApplyMsg key2shard10 exportConfigs notLeader (StartServer 10 1)
        [applyConfigOp 1, applyConfigOp 2]) 7 = Some EXPORTING
   \<and> lookupAfter (periodCheckApplyMsg key2shard10 exportConfigs notLeader (StartServer 10 1)
        [applyConfigOp 1, applyConfigOp 2, putOp ''a'' ''1'' 5 1,
         sendMigrateShard_done (sendMigrateShard_req exportingShard 7 2)]) ''a''
       = Some (Some ''1'')
   \<and> statusAfter (periodCheckApplyMsg key2shard10 exportConfigs notLeader (StartServer 10 1)
        [applyConfigOp 1, applyConfigOp 2, putOp ''a'' ''1'' 5 1,
         sendMigrateShard_done (sendMigrateShard_req exportingShard 7 2)]) 7
       = Some NOTOWNED"
  by (simp add: run_defs exportConfigs_def sendMigrateShard_done_def sendMigrateShard_req_def
        exportingShard_def)

subsection \<open>The migration handler\<close>

text \<open>
  The state \<open>importedShard\<close> is the one a replica of group 1 is in after it has applied
  configurations 1 and 2 of the second history and the \<open>ImportComplete\<close> of shard 7.
\<close>

lemma importedShard_reached:
  "periodCheckApplyMsg key2shard10 importConfigs notLeader (StartServer 10 1)
     [applyConfigOp 1, applyConfigOp 2,
      broadcastMigrationStatus ''ImportComplete'' 7 2 [''a'' \<mapsto> ''1''] [5 \<mapsto> 1]]
   = Some (Inr importedShard)"
  by (simp add: run_defs importConfigs_def importedShard_def fun_eq_iff map_add_def)

lemma importingShard_reached:
  "periodCheckApplyMsg key2shard10 importConfigs notLeader (StartServer 10 1)
     [applyConfigOp 1, applyConfigOp 2]
   = Some (Inr importingShard)"
  by (simp add: run_defs importConfigs_def importingShard_def)

text \<open>
  Claim C3. A \<open>MigrateShard\<close> call to a replica that is not the leader is answered with
  \<open>WrongLeader\<close>; a call to the leader for a shard that is \<open>AVAILABLE\<close> already, a
  repeated request, is to be answered with \<open>Err = OK\<close>. The handler is run on
  \<open>importedShard\<close> with a request for shard 7 and the zero reply of the sender. Not
  leading, it sets \<open>WrongLeader\<close>. Leading, it returns the reply as it got it: \<open>Err\<close>
  is the empty string, not \<open>OK\<close>, and the sender's test of success fails.
\<close>

theorem duplicate_migrate_reply_not_ok:
  "MigrateShard key2shard10 False importedShard migrateArgs zeroMigrateShardReply
     = Inr (zeroMigrateShardReply\<lparr>WrongLeader := True\<rparr>, None)
   \<and> ShardStatusList importedShard ! 7 = AVAILABLE
   \<and> MigrateShard key2shard10 True importedShard migrateArgs zeroMigrateShardReply
     = Inr (zeroMigrateShardReply, None)
   \<and> Err zeroMigrateShardReply = []
   \<and> Err zeroMigrateShardReply \<noteq> OK
   \<and> \<not> migrateAccepted True zeroMigrateShardReply"
  by (simp add: MigrateShard_def importedShard_def migrateArgs_def zeroMigrateShardReply_def
        OK_def migrateAccepted_def replicate_ten)

subsection \<open>The migration request\<close>

text \<open>
  Claim C4, amended. The request that the sender ships for shard \<open>s\<close> under
  configuration \<open>n\<close> carries these two numbers, a copy of the whole local key-value map,
  so every local key of shard \<open>s\<close> with its value and the keys of the other shards as
  well, and as duplicate table exactly \<open>duplicate[s]\<close> (empty when there is none). The
  keys of the other shards are dropped on arrival: a leader that takes the request
  answers \<open>OK\<close> and submits an \<open>ImportComplete\<close> with the sender's map cut down to shard
  \<open>s\<close>, and with \<open>duplicate[s]\<close>.
\<close>

theorem migrate_request_contents:
  "ConfigVersion (sendMigrateShard_req kv s n) = n
   \<and> ArgShardNumber (sendMigrateShard_req kv s n) = s
   \<and> ArgKvmap (sendMigrateShard_req kv s n) = Kvmap kv
   \<and> (\<forall>k. key2shard k = s \<longrightarrow> ArgKvmap (sendMigrateShard_req kv s n) k = Kvmap kv k)
   \<and> Duplicate (sendMigrateShard_req kv s n)
       = (case latestRequests kv s of None \<Rightarrow> Map.empty | Some m \<Rightarrow> m)
   \<and> (0 \<le> s \<and> s < int (length (ShardStatusList receiver))
        \<and> ShardStatusList receiver ! nat s \<noteq> AVAILABLE \<longrightarrow>
        MigrateShard key2shard True receiver (sendMigrateShard_req kv s n) reply
          = Inr (reply\<lparr>Err := OK\<rparr>,
                 Some (broadcastMigrationStatus ''ImportComplete'' s n
                         (Kvmap kv |` {k. key2shard k = s})
                         (case latestRequests kv s of None \<Rightarrow> Map.empty | Some m \<Rightarrow> m))))"
proof -
  have f: "ConfigVersion (sendMigrateShard_req kv s n) = n"
    "ArgShardNumber (sendMigrateShard_req kv s n) = s"
    "ArgKvmap (sendMigrateShard_req kv s n) = Kvmap kv"
    "Duplicate (sendMigrateShard_req kv s n)
       = (case latestRequests kv s of None \<Rightarrow> Map.empty | Some m \<Rightarrow> m)"
    by (simp_all add: sendMigrateShard_req_def)
  have d: "(\<lambda>k. if Kvmap kv k \<noteq> None \<and> s = key2shard k then Kvmap kv k else None)
      = Kvmap kv |` {k. key2shard k = s}"
    by (auto simp: fun_eq_iff restrict_map_def)
  show ?thesis
    unfolding MigrateShard_def Let_def f d by simp
qed

theorem migrate_request_contents_witness:
  "key2shard10 ''a'' = 7
   \<and> ArgKvmap (sendMigrateShard_req twoKeys 7 2) ''a'' = Kvmap twoKeys ''a''
   \<and> (0::int) \<le> 7 \<and> 7 < int (length (ShardStatusList importingShard))
   \<and> ShardStatusList importingShard ! nat 7 \<noteq> AVAILABLE
   \<and> MigrateShard key2shard10 True importingShard (sendMigrateShard_req twoKeys 7 2)
        zeroMigrateShardReply
       = Inr (zeroMigrateShardReply\<lparr>Err := OK\<rparr>,
              Some (broadcastMigrationStatus ''ImportComplete'' 7 2
                      (Kvmap twoKeys |` {k. key2shard10 k = 7}) Map.empty))"
  using migrate_request_contents
    [of twoKeys 7 2 key2shard10 importingShard zeroMigrateShardReply]
  by (simp add: key2shard10_a importingShard_def replicate_ten twoKeys_def StartServer_def)

text \<open>
  The claim as it was stated fails: the replica holds \<open>a\<close> of shard 7 and \<open>b\<close> of shard
  8, and the request for shard 7 carries \<open>b\<close>.
\<close>

theorem migrate_request_has_other_shard:
  "Kvmap twoKeys ''b'' = Some ''2'' \<and> key2shard10 ''b'' = 8
   \<and> ArgShardNumber (sendMigrateShard_req twoKeys 7 2) = 7
   \<and> ArgKvmap (sendMigrateShard_req twoKeys 7 2) ''b'' = Some ''2''"
  by (simp add: twoKeys_def sendMigrateShard_req_def key2shard10_b)

subsection \<open>Configurations in order\<close>

text \<open>
  Claim C7. An \<open>ApplyConfig\<close> command for number \<open>n\<close> is applied to a replica whose
  latest configuration does not have number \<open>n - 1\<close>, or one of whose shards is
  \<open>EXPORTING\<close> or \<open>IMPORTING\<close>. Then the command returns and changes nothing: the state
  after it, with the shard statuses, the latest configuration, the key-value map and
  the duplicate table, is the state before it, and no migration is sent.
\<close>

theorem ApplyConfig_ignored:
  assumes "Method cmd = ''ApplyConfig''"
    and "BroadcastCfgVersion cmd \<noteq> Num (LatestCfg kv) + 1
         \<or> (\<exists>i<length (ShardStatusList kv).
               ShardStatusList kv ! i = EXPORTING \<or> ShardStatusList kv ! i = IMPORTING)"
  shows "applyCommand key2shard query leader kv cmd = Some (Inr (kv, []))"
proof -
  have "shardTransferInProgress kv
      = (\<exists>i<length (ShardStatusList kv).
               ShardStatusList kv ! i = EXPORTING \<or> ShardStatusList kv ! i = IMPORTING)"
    unfolding shardTransferInProgress_def list_ex_iff by (metis in_set_conv_nth)
  with assms(2)
  have "Num (LatestCfg kv) + 1 \<noteq> BroadcastCfgVersion cmd \<or> shardTransferInProgress kv"
    by auto
  then have "applyConfigOperation query leader kv (BroadcastCfgVersion cmd) = Some (kv, [])"
    by (simp add: applyConfigOperation_def)
  with assms(1) show ?thesis by (simp add: applyCommand_def)
qed

text \<open>
  At concrete inputs: configuration 3 offered to a fresh replica, whose configuration has
  number 0; and configuration 3 offered to a replica at configuration 2 whose shard 7 is
  \<open>IMPORTING\<close>.
\<close>

theorem ApplyConfig_ignored_witness:
  "Method (applyConfigOp 3) = ''ApplyConfig''
   \<and> BroadcastCfgVersion (applyConfigOp 3) \<noteq> Num (LatestCfg (StartServer 10 1)) + 1
   \<and> applyCommand key2shard10 importConfigs notLeader (StartServer 10 1) (applyConfigOp 3)
       = Some (Inr (StartServer 10 1, []))
   \<and> BroadcastCfgVersion (applyConfigOp 3) = Num (LatestCfg importingShard) + 1
   \<and> ShardStatusList importingShard ! 7 = IMPORTING
   \<and> applyCommand key2shard10 importConfigs notLeader importingShard (applyConfigOp 3)
       = Some (Inr (importingShard, []))"
proof -
  have m: "Method (applyConfigOp 3) = ''ApplyConfig''"
    by (simp add: applyConfigOp_def)
  have n: "BroadcastCfgVersion (applyConfigOp 3) \<noteq> Num (LatestCfg (StartServer 10 1)) + 1"
    by (simp add: applyConfigOp_def StartServer_def)
  have i: "ShardStatusList importingShard ! 7 = IMPORTING"
    "7 < length (ShardStatusList importingShard)"
    by (simp_all add: importingShard_def replicate_ten)
  have e: "\<exists>i<length (ShardStatusList importingShard).
      ShardStatusList importingShard ! i = EXPORTING
        \<or> ShardStatusList importingShard ! i = IMPORTING"
    using i by blast
  have c: "BroadcastCfgVersion (applyConfigOp 3) = Num (LatestCfg importingShard) + 1"
    by (simp add: applyConfigOp_def importingShard_def importConfigs_def)
  from ApplyConfig_ignored [OF m disjI1 [OF n], of key2shard10 importConfigs notLeader]
    ApplyConfig_ignored [OF m disjI2 [OF e], of key2shard10 importConfigs notLeader]
    m n i c
  show ?thesis by simp
qed

subsection \<open>A superseded import\<close>

text \<open>
  Claim C8. A shard that is \<open>IMPORTING\<close> goes back to \<open>NOTOWNED\<close> when the next
  configuration gives it to another group. The code is run on a replica of group 1
  that starts empty and applies the second history: configuration 1 (every shard to
  group 2), configuration 2 (shard 7 to group 1), which makes shard 7 \<open>IMPORTING\<close>, and
  configuration 3, which gives shard 7 back to group 2. Configuration 3 is not taken,
  since a shard is \<open>IMPORTING\<close>, and shard 7 stays \<open>IMPORTING\<close>.
\<close>

theorem superseded_import_stays_importing:
  "statusAfter (periodCheckApplyMsg key2shard10 importConfigs notLeader (StartServer 10 1)
        [applyConfigOp 1, applyConfigOp 2]) 7 = Some IMPORTING
   \<and> Shards (importConfigs 3) ! 7 = 2
   \<and> gid (StartServer 10 1) = 1
   \<and> statusAfter (periodCheckApplyMsg key2shard10 importConfigs notLeader (StartServer 10 1)
        [applyConfigOp 1, applyConfigOp 2, applyConfigOp 3]) 7 = Some IMPORTING"
  by (simp add: run_defs importConfigs_def)


section \<open>Properties of the Raft peer\<close>

lemma persist_fields [simp]:
  "currentTerm (persist rf) = currentTerm rf"
  "votedFor (persist rf) = votedFor rf"
  "state (persist rf) = state rf"
  "log (persist rf) = log rf"
  "lastHeartBeat (persist rf) = lastHeartBeat rf"
  "leaderID (persist rf) = leaderID rf"
  "lastSnapshotIndex (persist rf) = lastSnapshotIndex rf"
  "lastSnapshotTerm (persist rf) = lastSnapshotTerm rf"
  "commitIndex (persist rf) = commitIndex rf"
  "isDecommissioned (persist rf) = isDecommissioned rf"
  by (simp_all add: persist_def)

lemma turnToFollow_fields [simp]:
  "currentTerm (turnToFollow rf) = currentTerm rf"
  "votedFor (turnToFollow rf) = - 1"
  "state (turnToFollow rf) = Follower"
  "log (turnToFollow rf) = log rf"
  "lastHeartBeat (turnToFollow rf) = lastHeartBeat rf"
  "leaderID (turnToFollow rf) = leaderID rf"
  "lastSnapshotIndex (turnToFollow rf) = lastSnapshotIndex rf"
  "lastSnapshotTerm (turnToFollow rf) = lastSnapshotTerm rf"
  "commitIndex (turnToFollow rf) = commitIndex rf"
  "isDecommissioned (turnToFollow rf) = isDecommissioned rf"
  by (simp_all add: turnToFollow_def)

subsection \<open>Granting a vote\<close>

text \<open>
  Claim C6. A peer that receives \<open>RequestVote\<close> grants its vote if and only if
  (i) the term of the request is at least its own term, where a greater term makes it
  step down to follower and take that term; (ii) \<open>votedFor\<close>, as that step leaves it,
  is unset or is the candidate; and (iii) the candidate's last log term is greater
  than the peer's, or equal with a last log index that is not smaller, where the
  peer's last log term and index are those of the last entry of its log, or those of
  its snapshot when the log is empty. A granted vote sets the election timer to the
  time of the call, and records the candidate.
\<close>

theorem RequestVote_grant:
  "(VoteGranted (snd (RequestVote rf args zeroRequestVoteReply now)) \<longleftrightarrow>
      currentTerm rf \<le> rvTerm args
      \<and> (votedFor (if currentTerm rf < rvTerm args then turnToFollow rf else rf) = - 1
           \<or> votedFor (if currentTerm rf < rvTerm args then turnToFollow rf else rf)
               = CandidateId args)
      \<and> ((if log rf \<noteq> [] then Term (last (log rf)) else lastSnapshotTerm rf)
             < LastLogTerm args
           \<or> ((if log rf \<noteq> [] then Term (last (log rf)) else lastSnapshotTerm rf)
                 = LastLogTerm args
               \<and> (if log rf \<noteq> [] then Index (last (log rf)) else lastSnapshotIndex rf)
                   \<le> LastLogIndex args)))
   \<and> (currentTerm rf < rvTerm args \<longrightarrow>
        currentTerm (fst (RequestVote rf args zeroRequestVoteReply now)) = rvTerm args
        \<and> state (fst (RequestVote rf args zeroRequestVoteReply now)) = Follower)
   \<and> (rvTerm args \<le> currentTerm rf \<longrightarrow>
        currentTerm (fst (RequestVote rf args zeroRequestVoteReply now)) = currentTerm rf
        \<and> state (fst (RequestVote rf args zeroRequestVoteReply now)) = state rf)
   \<and> (VoteGranted (snd (RequestVote rf args zeroRequestVoteReply now)) \<longrightarrow>
        lastHeartBeat (fst (RequestVote rf args zeroRequestVoteReply now)) = now
        \<and> votedFor (fst (RequestVote rf args zeroRequestVoteReply now)) = CandidateId args)"
  by (auto simp: RequestVote_def Let_def checkIfLogUpdateToDate_def getLastLogEntry_def
        zeroRequestVoteReply_def)

text \<open>
  At concrete inputs. The follower is in term 4, has voted for peer 2, and its log ends
  at index 2 with term 3. For term 5 it grants candidate 0 whose log ends the same, and
  candidate 0 whose log ends at index 1 with term 4; it refuses candidate 0 whose log
  ends at index 9 with term 2, and at index 1 with term 3. It refuses a request of term
  3, and in its own term 4 it refuses candidate 0 and grants candidate 2. The peer with
  the empty log and the snapshot up to index 4 of term 2 grants a candidate whose log
  ends at index 4 with term 2, and refuses one that ends at index 3 with term 2 or at
  index 9 with term 1.
\<close>

theorem RequestVote_grant_witness:
  "VoteGranted (snd (RequestVote peerExample (voteRequest 5 0 2 3) zeroRequestVoteReply 100))
   \<and> currentTerm peerExample < rvTerm (voteRequest 5 0 2 3)
   \<and> currentTerm (fst (RequestVote peerExample (voteRequest 5 0 2 3) zeroRequestVoteReply 100))
       = 5
   \<and> lastHeartBeat (fst (RequestVote peerExample (voteRequest 5 0 2 3) zeroRequestVoteReply 100))
       = 100
   \<and> votedFor (fst (RequestVote peerExample (voteRequest 5 0 2 3) zeroRequestVoteReply 100))
       = 0
   \<and> VoteGranted (snd (RequestVote peerExample (voteRequest 5 0 1 4) zeroRequestVoteReply 100))
   \<and> \<not> VoteGranted (snd (RequestVote peerExample (voteRequest 5 0 9 2) zeroRequestVoteReply 100))
   \<and> \<not> VoteGranted (snd (RequestVote peerExample (voteRequest 5 0 1 3) zeroRequestVoteReply 100))
   \<and> \<not> VoteGranted (snd (RequestVote peerExample (voteRequest 3 0 9 9) zeroRequestVoteReply 100))
   \<and> \<not> VoteGranted (snd (RequestVote peerExample (voteRequest 4 0 9 9) zeroRequestVoteReply 100))
   \<and> VoteGranted (snd (RequestVote peerExample (voteRequest 4 2 9 9) zeroRequestVoteReply 100))
   \<and> VoteGranted (snd (RequestVote snapshotPeer (voteRequest 5 0 4 2) zeroRequestVoteReply 100))
   \<and> \<not> VoteGranted (snd (RequestVote snapshotPeer (voteRequest 5 0 3 2) zeroRequestVoteReply 100))
   \<and> \<not> VoteGranted (snd (RequestVote snapshotPeer (voteRequest 5 0 9 1) zeroRequestVoteReply 100))"
  using RequestVote_grant [of peerExample "voteRequest 5 0 2 3" 100]
    RequestVote_grant [of peerExample "voteRequest 5 0 1 4" 100]
    RequestVote_grant [of peerExample "voteRequest 5 0 9 2" 100]
    RequestVote_grant [of peerExample "voteRequest 5 0 1 3" 100]
    RequestVote_grant [of peerExample "voteRequest 3 0 9 9" 100]
    RequestVote_grant [of peerExample "voteRequest 4 0 9 9" 100]
    RequestVote_grant [of peerExample "voteRequest 4 2 9 9" 100]
    RequestVote_grant [of snapshotPeer "voteRequest 5 0 4 2" 100]
    RequestVote_grant [of snapshotPeer "voteRequest 5 0 3 2" 100]
    RequestVote_grant [of snapshotPeer "voteRequest 5 0 9 1" 100]
  by (simp add: peerExample_def snapshotPeer_def voteRequest_def)

subsection \<open>Starting agreement on a command\<close>

lemma go_add_in_range:
  assumes "- (2 ^ 63) \<le> a + b" "a + b < 2 ^ 63"
  shows "go_add a b = a + b"
proof -
  have "0 \<le> a + b + 2 ^ 63" "a + b + 2 ^ 63 < 2 ^ 64" using assms by simp_all
  then have "(a + b + 2 ^ 63) mod 2 ^ 64 = a + b + 2 ^ 63" by (rule mod_pos_pos_trivial)
  then show ?thesis by (simp add: go_add_def)
qed

text \<open>
  Claim C9. \<open>Start\<close> on a peer that is not the leader returns \<open>(-1, -1, false)\<close> and
  leaves the peer, with its log and its persisted state, as it was. On the leader it
  appends one entry, with the command and the current term, at the index of the last
  entry plus one, or at \<open>max(1, lastSnapshotIndex + 1)\<close> when the log is empty;
  it persists the new state, changes nothing else, and returns that index, the current
  term and \<open>true\<close>. The sum is Go's: it is the sum of the integers for every index of
  the type but the largest, \<open>2^63 - 1\<close>.
\<close>

theorem Start_result:
  "(\<not> isLeader rf \<longrightarrow> Start rf command = (rf, - 1, - 1, False))
   \<and> (isLeader rf \<longrightarrow>
        Start rf command =
          (rf\<lparr>log := log rf @ [\<lparr>Cmd = command, Term = currentTerm rf,
                                  Index = (if log rf \<noteq> [] then go_add (Index (last (log rf))) 1
                                           else max 1 (go_add (lastSnapshotIndex rf) 1))\<rparr>],
               raftstate := \<lparr>pTerm = currentTerm rf, pVotedFor = votedFor rf,
                              pLog = log rf @ [\<lparr>Cmd = command, Term = currentTerm rf,
                                  Index = (if log rf \<noteq> [] then go_add (Index (last (log rf))) 1
                                           else max 1 (go_add (lastSnapshotIndex rf) 1))\<rparr>],
                              pLastSnapshotIndex = lastSnapshotIndex rf,
                              pLastSnapshotTerm = lastSnapshotTerm rf\<rparr>\<rparr>,
           (if log rf \<noteq> [] then go_add (Index (last (log rf))) 1
            else max 1 (go_add (lastSnapshotIndex rf) 1)),
           currentTerm rf, True))
   \<and> (isLeader rf \<and> log rf \<noteq> [] \<and> - (2 ^ 63) \<le> Index (last (log rf))
        \<and> Index (last (log rf)) < 2 ^ 63 - 1 \<longrightarrow>
        fst (snd (Start rf command)) = Index (last (log rf)) + 1
        \<and> log (fst (Start rf command))
            = log rf @ [\<lparr>Cmd = command, Term = currentTerm rf,
                          Index = Index (last (log rf)) + 1\<rparr>])
   \<and> (isLeader rf \<and> log rf = [] \<and> - (2 ^ 63) \<le> lastSnapshotIndex rf
        \<and> lastSnapshotIndex rf < 2 ^ 63 - 1 \<longrightarrow>
        fst (snd (Start rf command)) = max 1 (lastSnapshotIndex rf + 1)
        \<and> log (fst (Start rf command))
            = [\<lparr>Cmd = command, Term = currentTerm rf,
                Index = max 1 (lastSnapshotIndex rf + 1)\<rparr>])"
proof -
  have a: "go_add x 1 = x + 1" if "- (2 ^ 63) \<le> x" "x < 2 ^ 63 - 1" for x
    using that by (intro go_add_in_range) simp_all
  show ?thesis
    using a [of "Index (last (log rf))"] a [of "lastSnapshotIndex rf"]
    by (simp add: Start_def Let_def persist_def getPersistState_def)
qed

text \<open>
  At concrete inputs: the follower of the examples; the same peer as leader, whose log
  ends at index 2 and whose term is 4; and the peer with the empty log and the snapshot
  up to index 4, as leader.
\<close>

theorem Start_result_witness:
  "\<not> isLeader peerExample
   \<and> Start peerExample 12 = (peerExample, - 1, - 1, False)
   \<and> isLeader (peerExample\<lparr>state := Leader\<rparr>)
   \<and> snd (Start (peerExample\<lparr>state := Leader\<rparr>) 12) = (3, 4, True)
   \<and> log (fst (Start (peerExample\<lparr>state := Leader\<rparr>) 12))
       = log peerExample @ [\<lparr>Cmd = 12, Term = 4, Index = 3\<rparr>]
   \<and> isLeader (snapshotPeer\<lparr>state := Leader\<rparr>)
   \<and> snd (Start (snapshotPeer\<lparr>state := Leader\<rparr>) 12) = (5, 4, True)
   \<and> log (fst (Start (snapshotPeer\<lparr>state := Leader\<rparr>) 12))
       = [\<lparr>Cmd = 12, Term = 4, Index = 5\<rparr>]"
  using Start_result [of peerExample 12] Start_result [of "peerExample\<lparr>state := Leader\<rparr>" 12]
    Start_result [of "snapshotPeer\<lparr>state := Leader\<rparr>" 12]
  by (simp add: peerExample_def snapshotPeer_def isLeader_def go_add_def)

text \<open>
  Where the sum wraps: the last entry has index \<open>2^63 - 1\<close>, and the entry appended and
  the index returned have \<open>- 2^63\<close>.
\<close>

lemma Start_at_largest_index:
  "isLeader fullLeader
   \<and> Index (last (log fullLeader)) = 2 ^ 63 - 1
   \<and> fst (snd (Start fullLeader 12)) = - (2 ^ 63)
   \<and> map Index (log (fst (Start fullLeader 12))) = [2 ^ 63 - 1, - (2 ^ 63)]"
  by (simp add: Start_def Let_def fullLeader_def peerExample_def isLeader_def go_add_def)

subsection \<open>The vote after a leader was heard\<close>








subsection \<open>Advancing the commit index\<close>

lemma majority_iff: "(n div 2 < c) = (n < 2 * c)" for n c :: nat
  by presburger

text \<open>
  With two peers or more, the scan either changes nothing, no entry below \<open>i\<close> passing
  the test, or it commits the entry at the highest position below \<open>i\<close> that passes it.
\<close>

lemma updateCommitIndexFrom_cases:
  assumes "2 \<le> npeers rf"
  shows "(updateCommitIndexFrom rf i = rf \<and> (\<forall>j<i. \<not> qualifies rf (log rf ! j)))
       \<or> (\<exists>k<i. qualifies rf (log rf ! k)
             \<and> updateCommitIndexFrom rf i
                 = rf\<lparr>commitIndex := Index (log rf ! k),
                       notifyApplyCh := Suc (notifyApplyCh rf)\<rparr>
             \<and> (\<forall>j. k < j \<and> j < i \<longrightarrow> \<not> qualifies rf (log rf ! j)))"
proof (induction i)
  case 0
  then show ?case by simp
next
  case (Suc i)
  from assms have half: "1 \<le> npeers rf div 2" by simp
  show ?case
  proof (cases "qualifies rf (log rf ! i)")
    case True
    then have "updateCommitIndexFrom rf (Suc i)
        = rf\<lparr>commitIndex := Index (log rf ! i), notifyApplyCh := Suc (notifyApplyCh rf)\<rparr>"
      by (simp add: qualifies_def Let_def)
    with True show ?thesis by auto
  next
    case False
    with half have step: "updateCommitIndexFrom rf (Suc i) = updateCommitIndexFrom rf i"
      by (auto simp: qualifies_def Let_def)
    from Suc.IH show ?thesis
    proof
      assume "updateCommitIndexFrom rf i = rf \<and> (\<forall>j<i. \<not> qualifies rf (log rf ! j))"
      with False step show ?thesis by (auto simp: less_Suc_eq)
    next
      assume "\<exists>k<i. qualifies rf (log rf ! k)
             \<and> updateCommitIndexFrom rf i
                 = rf\<lparr>commitIndex := Index (log rf ! k),
                       notifyApplyCh := Suc (notifyApplyCh rf)\<rparr>
             \<and> (\<forall>j. k < j \<and> j < i \<longrightarrow> \<not> qualifies rf (log rf ! j))"
      then obtain k where k: "k < i" "qualifies rf (log rf ! k)"
        "updateCommitIndexFrom rf i
           = rf\<lparr>commitIndex := Index (log rf ! k), notifyApplyCh := Suc (notifyApplyCh rf)\<rparr>"
        "\<forall>j. k < j \<and> j < i \<longrightarrow> \<not> qualifies rf (log rf ! j)"
        by blast
      have "\<forall>j. k < j \<and> j < Suc i \<longrightarrow> \<not> qualifies rf (log rf ! j)"
        using k(4) False by (auto simp: less_Suc_eq)
      with k step show ?thesis
        by (intro disjI2 exI [of _ k]) simp
    qed
  qed
qed

lemma sorted_index_pos:
  assumes "sorted_wrt (<) (map Index lg)" "j < length lg" "k < length lg"
    "Index (lg ! k) < Index (lg ! j)"
  shows "k < j"
proof (rule ccontr)
  assume "\<not> k < j"
  then consider "j = k" | "j < k" by linarith
  then show False
  proof cases
    case 1
    with assms(4) show False by simp
  next
    case 2
    from sorted_wrt_nth_less [OF assms(1), of j k] 2 assms(3)
    have "Index (lg ! j) < Index (lg ! k)" by simp
    with assms(4) show False by simp
  qed
qed

lemma updateCommitIndex_advance:
  assumes peers: "2 \<le> npeers rf"
    and sorted: "sorted_wrt (<) (map Index (log rf))"
    and adv: "commitIndex (updateCommitIndex rf) \<noteq> commitIndex rf"
  shows "commitIndex rf < commitIndex (updateCommitIndex rf)
       \<and> (\<exists>e\<in>set (log rf). Index e = commitIndex (updateCommitIndex rf)
             \<and> Term e = currentTerm rf)
       \<and> npeers rf < 2 * (1 + countMatches rf (commitIndex (updateCommitIndex rf)))
       \<and> (\<forall>e\<in>set (log rf). Term e = currentTerm rf
             \<and> npeers rf < 2 * (1 + countMatches rf (Index e))
             \<longrightarrow> Index e \<le> commitIndex (updateCommitIndex rf))
       \<and> (\<forall>e\<in>set (log rf). Index e = commitIndex (updateCommitIndex rf)
             \<longrightarrow> Term e = currentTerm rf)"
proof -
  let ?n = "length (log rf)"
  from updateCommitIndexFrom_cases [OF peers, of ?n] adv
  obtain k where k: "k < ?n" "qualifies rf (log rf ! k)"
    "updateCommitIndex rf
       = rf\<lparr>commitIndex := Index (log rf ! k), notifyApplyCh := Suc (notifyApplyCh rf)\<rparr>"
    "\<forall>j. k < j \<and> j < ?n \<longrightarrow> \<not> qualifies rf (log rf ! j)"
    by (auto simp: updateCommitIndex_def)
  let ?N = "Index (log rf ! k)"
  have N: "commitIndex (updateCommitIndex rf) = ?N" using k(3) by simp
  have c1: "commitIndex rf < ?N" using k(2) by (simp add: qualifies_def)
  have c2: "\<exists>e\<in>set (log rf). Index e = ?N \<and> Term e = currentTerm rf"
    using k(1,2) by (auto simp: qualifies_def intro: bexI [of _ "log rf ! k"])
  have c3: "npeers rf < 2 * (1 + countMatches rf ?N)"
    using k(2) by (simp add: qualifies_def majority_iff)
  have c4: "Index e \<le> ?N"
    if e: "e \<in> set (log rf)" "Term e = currentTerm rf"
      "npeers rf < 2 * (1 + countMatches rf (Index e))" for e
  proof (rule ccontr)
    assume "\<not> Index e \<le> ?N"
    then have gt: "?N < Index e" by simp
    from e(1) obtain j where j: "j < ?n" "log rf ! j = e" by (auto simp: in_set_conv_nth)
    from sorted_index_pos [OF sorted j(1) k(1)] gt j(2) have "k < j" by simp
    with k(4) j(1) have "\<not> qualifies rf (log rf ! j)" by simp
    moreover have "qualifies rf e"
      using e(2,3) gt c1 by (simp add: qualifies_def majority_iff)
    ultimately show False using j(2) by simp
  qed
  have c5: "Term e = currentTerm rf" if e: "e \<in> set (log rf)" "Index e = ?N" for e
  proof -
    from e(1) obtain j where j: "j < ?n" "log rf ! j = e" by (auto simp: in_set_conv_nth)
    have "j = k"
    proof (rule ccontr)
      assume "j \<noteq> k"
      then consider "j < k" | "k < j" by linarith
      then show False
      proof cases
        case 1
        from sorted_wrt_nth_less [OF sorted, of j k] 1 k(1) j(2) e(2) show False by simp
      next
        case 2
        from sorted_wrt_nth_less [OF sorted, of k j] 2 j(1) j(2) e(2) show False by simp
      qed
    qed
    with j(2) k(2) show ?thesis by (auto simp: qualifies_def)
  qed
  from c1 c2 c3 c4 c5 show ?thesis unfolding N by blast
qed

lemma updateCommitIndexFrom_keeps:
  "me (updateCommitIndexFrom rf i) = me rf
   \<and> matchIndex (updateCommitIndexFrom rf i) = matchIndex rf
   \<and> log (updateCommitIndexFrom rf i) = log rf
   \<and> currentTerm (updateCommitIndexFrom rf i) = currentTerm rf
   \<and> npeers (updateCommitIndexFrom rf i) = npeers rf"
  by (induction i) (simp_all add: Let_def)

lemma countMatches_cong:
  "me a = me b \<Longrightarrow> matchIndex a = matchIndex b \<Longrightarrow> countMatches a x = countMatches b x"
  by (simp add: countMatches_def)

text \<open>
  The count of the inner loop, read off the list of match indices: with this peer's own
  position in the list, one more than the count is the number of positions that are this
  peer's or hold a match index of at least \<open>idx\<close>.
\<close>

lemma countMatches_card:
  "countMatches rf idx
     = card {j. j < length (matchIndex rf) \<and> int j \<noteq> me rf \<and> idx \<le> matchIndex rf ! j}"
proof -
  have "countMatches rf idx
      = card {j. j < length (enumerate 0 (matchIndex rf))
                 \<and> (\<lambda>(serverIndex, m). int serverIndex \<noteq> me rf \<and> idx \<le> m)
                      (enumerate 0 (matchIndex rf) ! j)}"
    unfolding countMatches_def by (rule length_filter_conv_card)
  also have "{j. j < length (enumerate 0 (matchIndex rf))
                 \<and> (\<lambda>(serverIndex, m). int serverIndex \<noteq> me rf \<and> idx \<le> m)
                      (enumerate 0 (matchIndex rf) ! j)}
      = {j. j < length (matchIndex rf) \<and> int j \<noteq> me rf \<and> idx \<le> matchIndex rf ! j}"
    by (auto simp: nth_enumerate_eq)
  finally show ?thesis .
qed

lemma leader_counted:
  assumes "0 \<le> me rf" "me rf < int (length (matchIndex rf))"
  shows "1 + countMatches rf idx
     = card {j. j < length (matchIndex rf) \<and> (int j = me rf \<or> idx \<le> matchIndex rf ! j)}"
proof -
  let ?others = "{j. j < length (matchIndex rf) \<and> int j \<noteq> me rf \<and> idx \<le> matchIndex rf ! j}"
  have fin: "finite ?others" by simp
  have notin: "nat (me rf) \<notin> ?others" using assms by simp
  have "{j. j < length (matchIndex rf) \<and> (int j = me rf \<or> idx \<le> matchIndex rf ! j)}
      = insert (nat (me rf)) ?others"
    using assms by auto
  then have "card {j. j < length (matchIndex rf) \<and> (int j = me rf \<or> idx \<le> matchIndex rf ! j)}
      = Suc (card ?others)"
    using fin notin by simp
  then show ?thesis by (simp add: countMatches_card)
qed

text \<open>
  Claim C5. The leader handles the reply of peer \<open>s\<close> to an \<open>AppendEntries\<close> call, and
  its commit index is changed by that. The leader's list of match indices has one place
  for each peer, the leader's own place is one of them, \<open>s\<close> is another peer, and the
  log has increasing indices. Then the reply was a success, the cluster has two peers at
  least, and the match index of \<open>s\<close> was set to the last index sent. The new commit
  index \<open>N\<close> is greater than the old one, and it is the index of a log entry of the
  current term. More than half of the peers are the leader or have a match index of at
  least \<open>N\<close>. No log entry of the current term with such a majority has a greater
  index. No log entry with index \<open>N\<close> is of another term: whatever the size of the
  cluster, an entry of another term is not committed by the count.
\<close>

theorem commit_after_reply:
  assumes res: "sendAppendEntries_reply rf s args reply = Inr (rf', signal)"
    and len: "length (matchIndex rf) = npeers rf"
    and me: "0 \<le> me rf" "me rf < int (npeers rf)"
    and other: "s \<noteq> me rf"
    and sorted: "sorted_wrt (<) (map Index (log rf))"
    and adv: "commitIndex rf' \<noteq> commitIndex rf"
  shows "Success reply
       \<and> 0 \<le> s \<and> s < int (npeers rf) \<and> 2 \<le> npeers rf
       \<and> matchIndex rf'
           = (matchIndex rf)[nat s := go_add (PreLogIndex args) (int (length (Entries args)))]
       \<and> log rf' = log rf \<and> currentTerm rf' = currentTerm rf \<and> npeers rf' = npeers rf
       \<and> me rf' = me rf
       \<and> commitIndex rf < commitIndex rf'
       \<and> (\<exists>e\<in>set (log rf). Index e = commitIndex rf' \<and> Term e = currentTerm rf)
       \<and> npeers rf
           < 2 * card {j. j < npeers rf
                          \<and> (int j = me rf \<or> commitIndex rf' \<le> matchIndex rf' ! j)}
       \<and> (\<forall>e\<in>set (log rf).
             Term e = currentTerm rf
             \<and> npeers rf
                 < 2 * card {j. j < npeers rf \<and> (int j = me rf \<or> Index e \<le> matchIndex rf' ! j)}
             \<longrightarrow> Index e \<le> commitIndex rf')
       \<and> (\<forall>e\<in>set (log rf). Index e = commitIndex rf' \<longrightarrow> Term e = currentTerm rf)"
proof -
  define rfm where "rfm = rf\<lparr>matchIndex := (matchIndex rf)
        [nat s := go_add (PreLogIndex args) (int (length (Entries args)))],
      nextIndex := (nextIndex rf)
        [nat s := go_add (go_add (PreLogIndex args) (int (length (Entries args)))) 1]\<rparr>"
  have upd: "Success reply \<and> 0 \<le> s \<and> s < int (length (matchIndex rf))
      \<and> rf' = updateCommitIndex rfm"
    using res adv unfolding sendAppendEntries_reply_def rfm_def Let_def
    by (auto split: if_splits)
  have m: "npeers rfm = npeers rf" "log rfm = log rf" "commitIndex rfm = commitIndex rf"
    "currentTerm rfm = currentTerm rf" "me rfm = me rf"
    "matchIndex rfm
       = (matchIndex rf)[nat s := go_add (PreLogIndex args) (int (length (Entries args)))]"
    by (simp_all add: rfm_def)
  from updateCommitIndexFrom_keeps [of rfm "length (log rfm)"] upd
  have k: "me rf' = me rfm" "matchIndex rf' = matchIndex rfm" "log rf' = log rfm"
    "currentTerm rf' = currentTerm rfm" "npeers rf' = npeers rfm"
    by (simp_all add: updateCommitIndex_def)
  have two: "2 \<le> npeers rf"
    using upd len me other by linarith
  have lenm: "length (matchIndex rfm) = npeers rf"
    using len by (simp add: rfm_def)
  have cnt: "1 + countMatches rfm x
      = card {j. j < npeers rf \<and> (int j = me rf \<or> x \<le> matchIndex rf' ! j)}" for x
    using leader_counted [of rfm x] me lenm m(5) k(2) by simp
  have "2 \<le> npeers rfm" "sorted_wrt (<) (map Index (log rfm))"
    "commitIndex (updateCommitIndex rfm) \<noteq> commitIndex rfm"
    using two sorted adv upd m by simp_all
  from updateCommitIndex_advance [OF this]
  have adv': "commitIndex rf < commitIndex rf'"
    "\<exists>e\<in>set (log rf). Index e = commitIndex rf' \<and> Term e = currentTerm rf"
    "npeers rf < 2 * (1 + countMatches rfm (commitIndex rf'))"
    "\<forall>e\<in>set (log rf). Term e = currentTerm rf
        \<and> npeers rf < 2 * (1 + countMatches rfm (Index e))
        \<longrightarrow> Index e \<le> commitIndex rf'"
    "\<forall>e\<in>set (log rf). Index e = commitIndex rf' \<longrightarrow> Term e = currentTerm rf"
    using upd m by simp_all
  from adv'(3,4) have maj: "npeers rf
           < 2 * card {j. j < npeers rf
                          \<and> (int j = me rf \<or> commitIndex rf' \<le> matchIndex rf' ! j)}"
    and high: "\<forall>e\<in>set (log rf).
             Term e = currentTerm rf
             \<and> npeers rf
                 < 2 * card {j. j < npeers rf \<and> (int j = me rf \<or> Index e \<le> matchIndex rf' ! j)}
             \<longrightarrow> Index e \<le> commitIndex rf'"
    unfolding cnt by simp_all
  from upd len two k m adv'(1,2,5) maj high show ?thesis by simp
qed

text \<open>
  At a concrete input: the leader of three peers, in term 3 with commit index 1, has sent
  the entries 2 and 3 of term 3 to peer 1 and gets a success; it commits index 3, which
  the leader and peer 1 hold.
\<close>

lemma leaderExample_reply:
  "sendAppendEntries_reply leaderExample 1 entriesSent successReply
     = Inr (leaderExample\<lparr>matchIndex := [0, 3, 0], nextIndex := [0, 4, 2],
                          commitIndex := 3, notifyApplyCh := 1\<rparr>, False)"
  by (simp add: sendAppendEntries_reply_def leaderExample_def entriesSent_def successReply_def
        updateCommitIndex_def countMatches_def Let_def go_add_def)

theorem commit_after_reply_witness:
  "sendAppendEntries_reply leaderExample 1 entriesSent successReply
       = Inr (leaderExample\<lparr>matchIndex := [0, 3, 0], nextIndex := [0, 4, 2],
                            commitIndex := 3, notifyApplyCh := 1\<rparr>, False)
   \<and> length (matchIndex leaderExample) = npeers leaderExample
   \<and> 0 \<le> me leaderExample \<and> me leaderExample < int (npeers leaderExample)
   \<and> 1 \<noteq> me leaderExample
   \<and> sorted_wrt (<) (map Index (log leaderExample))
   \<and> commitIndex leaderExample = 1
   \<and> Success successReply
   \<and> npeers leaderExample
       < 2 * card {j. j < npeers leaderExample
                      \<and> (int j = me leaderExample \<or> 3 \<le> [0, 3, 0 :: int] ! j)}"
proof -
  have l: "length (matchIndex leaderExample) = npeers leaderExample"
    and m: "0 \<le> me leaderExample" "me leaderExample < int (npeers leaderExample)"
    and o: "1 \<noteq> me leaderExample"
    and s: "sorted_wrt (<) (map Index (log leaderExample))"
    by (simp_all add: leaderExample_def)
  have a: "commitIndex (leaderExample\<lparr>matchIndex := [0, 3, 0], nextIndex := [0, 4, 2],
                          commitIndex := 3, notifyApplyCh := 1\<rparr>) \<noteq> commitIndex leaderExample"
    by (simp add: leaderExample_def)
  from commit_after_reply [OF leaderExample_reply l m o s a] l m o s leaderExample_reply
  show ?thesis by (simp add: leaderExample_def)
qed

end
